theory Spec2Isabelle
  imports Main
begin

section \<open>The UCloud driver of docker-machine (ucloud.go)\<close>

text \<open>
  A shallow embedding of the driver in \<^verbatim>\<open>ucloud.go\<close>. Logging calls are left out: they
  do not change the driver and return nothing. Time is not modelled, so the sleep between two
  polls is left out as well.
\<close>

subsection \<open>Errors and the machine states of libmachine\<close>

text \<open>
  Every error of the driver is built by \<^verbatim>\<open>fmt.Errorf\<close>: a value that holds its message
  only. \<open>Error\<close> is the method \<^verbatim>\<open>err.Error()\<close> that the verb \<^verbatim>\<open>%s\<close> prints.
  A Go result of type \<^verbatim>\<open>error\<close> is an \<open>error option\<close>, with \<open>None\<close> for
  \<^verbatim>\<open>nil\<close>.
\<close>

datatype error = Errorf string

fun Error :: "error \<Rightarrow> string" where
  "Error (Errorf m) = m"

text \<open>
  The enumeration \<^verbatim>\<open>state.State\<close> of libmachine, in the order of its constants;
  \<^verbatim>\<open>state.None\<close> is the zero value of the type.
\<close>

datatype State =
    State_None
  | State_Running
  | State_Paused
  | State_Saved
  | State_Stopped
  | State_Stopping
  | State_Starting
  | State_Error
  | State_Timeout

subsection \<open>The driver\<close>

text \<open>
  The struct \<^verbatim>\<open>Driver\<close>; the first five fields are those of the embedded
  \<^verbatim>\<open>drivers.BaseDriver\<close> that the file reads or writes.
\<close>

record Driver =
  MachineName :: string
  ArtifactPath :: string
  IPAddress :: string
  SSHUser :: string
  SSHPort :: int
  PublicKey :: string
  PrivateKey :: string
  Region :: string
  ImageId :: string
  Password :: string
  UhostID :: string
  CPU :: int
  Memory :: int
  DiskSpace :: int
  PrivateIPOnly :: bool
  PrivateIPAddress :: string
  SecurityGroupId :: int
  SecurityGroupName :: string

definition defaultCPU :: int where
  "defaultCPU = 1"

definition defaultMemory :: int where
  "defaultMemory = 1024"

definition defaultDiskSpace :: int where
  "defaultDiskSpace = 20000"

definition defaultRegion :: string where
  "defaultRegion = ''cn-north-03''"

definition defaultImageId :: string where
  "defaultImageId = ''uimage-5yt2b0''"

definition NewDriver :: "string \<Rightarrow> string \<Rightarrow> Driver" where
  "NewDriver hostName artifactPath =
     \<lparr> MachineName = hostName, ArtifactPath = artifactPath, IPAddress = [], SSHUser = [],
       SSHPort = 0, PublicKey = [], PrivateKey = [], Region = defaultRegion, ImageId = [],
       Password = [], UhostID = [], CPU = defaultCPU, Memory = defaultMemory,
       DiskSpace = defaultDiskSpace, PrivateIPOnly = False, PrivateIPAddress = [],
       SecurityGroupId = 0, SecurityGroupName = [] \<rparr>"

subsection \<open>The collaborators that are not in ucloud.go\<close>

text \<open>
  The value that \<^verbatim>\<open>getHostDescription\<close> returns: a pointer (\<open>None\<close> for
  \<^verbatim>\<open>nil\<close>) to a struct of which the driver reads the field \<^verbatim>\<open>state\<close> only.
\<close>

record UHostDetails =
  state :: string

text \<open>
  The helpers of the package that talk to the provider are defined in other files. They are
  parameters of the model: the methods of the driver may change the driver and the remote
  world \<open>'w\<close>, the package-level functions take the region and the instance id and may
  change the remote world. \<open>validateUCloudRegion\<close> and \<open>ToLower\<close>
  (\<^verbatim>\<open>strings.ToLower\<close>) are pure. The last two fields are the policy of
  \<^verbatim>\<open>mcnutils.WaitFor\<close>: how many times it polls, and the error it returns when it gives up.
\<close>

record 'w Env =
  createKeyPair :: "Driver \<Rightarrow> 'w \<Rightarrow> error option \<times> Driver \<times> 'w"
  createUHost :: "Driver \<Rightarrow> 'w \<Rightarrow> error option \<times> Driver \<times> 'w"
  getHostDescription :: "Driver \<Rightarrow> 'w \<Rightarrow> (UHostDetails option \<times> error option) \<times> Driver \<times> 'w"
  createUNet :: "Driver \<Rightarrow> 'w \<Rightarrow> error option \<times> Driver \<times> 'w"
  uploadKeyPair :: "Driver \<Rightarrow> 'w \<Rightarrow> error option \<times> Driver \<times> 'w"
  startUHost :: "string \<Rightarrow> string \<Rightarrow> 'w \<Rightarrow> error option \<times> 'w"
  stopUHost :: "string \<Rightarrow> string \<Rightarrow> 'w \<Rightarrow> error option \<times> 'w"
  terminateUHost :: "string \<Rightarrow> string \<Rightarrow> 'w \<Rightarrow> error option \<times> 'w"
  rebootUHost :: "string \<Rightarrow> string \<Rightarrow> 'w \<Rightarrow> error option \<times> 'w"
  killUHost :: "string \<Rightarrow> string \<Rightarrow> 'w \<Rightarrow> error option \<times> 'w"
  validateUCloudRegion :: "string \<Rightarrow> string \<times> error option"
  ToLower :: "string \<Rightarrow> string"
  maxAttempts :: nat
  timeoutError :: error

text \<open>
  The calls that the driver makes to these helpers are recorded, in the order in which they
  are made, with the region and the instance id where the helper takes them.
\<close>

datatype Call =
    CallCreateKeyPair
  | CallCreateUHost
  | CallGetHostDescription
  | CallCreateUNet
  | CallUploadKeyPair
  | CallStartUHost string string
  | CallStopUHost string string
  | CallTerminateUHost string string
  | CallRebootUHost string string
  | CallKillUHost string string

text \<open>What a method of the driver runs on: the driver, the remote world, the calls so far.\<close>

record 'w Sys =
  driver :: Driver
  world :: 'w
  calls :: "Call list"

definition invoke_method ::
  "Call \<Rightarrow> (Driver \<Rightarrow> 'w \<Rightarrow> 'a \<times> Driver \<times> 'w) \<Rightarrow> 'w Sys \<Rightarrow> 'a \<times> 'w Sys" where
  "invoke_method c m s =
     (case m (driver s) (world s) of
        (r, d', w') \<Rightarrow> (r, \<lparr> driver = d', world = w', calls = calls s @ [c] \<rparr>))"

definition invoke_function ::
  "Call \<Rightarrow> ('w \<Rightarrow> 'a \<times> 'w) \<Rightarrow> 'w Sys \<Rightarrow> 'a \<times> 'w Sys" where
  "invoke_function c f s =
     (case f (world s) of
        (r, w') \<Rightarrow> (r, \<lparr> driver = driver s, world = w', calls = calls s @ [c] \<rparr>))"

subsection \<open>Configuration\<close>

text \<open>The interface \<^verbatim>\<open>drivers.DriverOptions\<close>: the value of a flag, by name and type.\<close>

record DriverOptions =
  flag_String :: "string \<Rightarrow> string"
  flag_Int :: "string \<Rightarrow> int"
  flag_Bool :: "string \<Rightarrow> bool"

text \<open>
  A flag as \<^verbatim>\<open>GetCreateFlags\<close> declares it: its name, usage text, default value (a string,
  an integer, or none for a boolean flag) and environment variable.
\<close>

datatype FlagValue = NoValue | StringValue string | IntValue int

record Flag =
  Name :: string
  Usage :: string
  Value :: FlagValue
  EnvVar :: string

definition GetCreateFlags :: "Flag list" where
  "GetCreateFlags =
     [ \<lparr> Name = ''ucloud-public-key'', Usage = ''UCloud Public Key'',
         Value = StringValue [], EnvVar = ''UCLOUD_PUBLIC_KEY'' \<rparr>,
       \<lparr> Name = ''ucloud-private-key'', Usage = ''UCloud Private Key'',
         Value = StringValue [], EnvVar = ''UCLOUD_PRIVATE_KEY'' \<rparr>,
       \<lparr> Name = ''ucloud-imageid'', Usage = ''UHost image id'',
         Value = StringValue [], EnvVar = [] \<rparr>,
       \<lparr> Name = ''ucloud-user-password'', Usage = ''Password of ucloud user'',
         Value = StringValue [], EnvVar = [] \<rparr>,
       \<lparr> Name = ''ucloud-region'', Usage = ''Region of ucloud idc'',
         Value = StringValue ''cn-north-03'', EnvVar = ''UCLOUD_REGION'' \<rparr>,
       \<lparr> Name = ''ucloud-ssh-user'', Usage = ''SSH user'',
         Value = StringValue ''root'', EnvVar = [] \<rparr>,
       \<lparr> Name = ''ucloud-ssh-port'', Usage = ''SSH port'',
         Value = IntValue 22, EnvVar = [] \<rparr>,
       \<lparr> Name = ''ucloud-private-address-only'', Usage = ''Only use a private IP address'',
         Value = NoValue, EnvVar = [] \<rparr>,
       \<lparr> Name = ''ucloud-security-group'', Usage = ''UCloud security group'',
         Value = StringValue ''docker-machine'', EnvVar = [] \<rparr> ]"

definition DriverName :: string where
  "DriverName = ''ucloud''"

definition GetSSHUsername :: "Driver \<Rightarrow> string \<times> Driver" where
  "GetSSHUsername d =
     (let d1 = (if SSHUser d = [] then d\<lparr>SSHUser := ''root''\<rparr> else d)
      in (SSHUser d1, d1))"

definition SetConfigFromFlags :: "'w Env \<Rightarrow> DriverOptions \<Rightarrow> Driver \<Rightarrow> error option \<times> Driver" where
  "SetConfigFromFlags env flags d =
     (case validateUCloudRegion env (flag_String flags ''ucloud-region'') of
        (region, Some err) \<Rightarrow> (Some err, d)
      | (region, None) \<Rightarrow>
          (let d1 = d\<lparr>Region := region\<rparr>;
               d2 = d1\<lparr>PublicKey := flag_String flags ''ucloud-public-key''\<rparr>
           in if PublicKey d2 = []
              then (Some (Errorf ''ucloud driver requires the --ucloud-public-key option''), d2)
              else
                (let d3 = d2\<lparr>PrivateKey := flag_String flags ''ucloud-private-key''\<rparr>
                 in if PrivateKey d3 = []
                    then (Some (Errorf ''ucloud driver requires the --ucloud-private-key option''), d3)
                    else
                      (let image = flag_String flags ''ucloud-imageid'';
                           image1 = (if length image = 0 then defaultImageId else image);
                           d4 = d3\<lparr>ImageId := image1\<rparr>;
                           d5 = d4\<lparr>PrivateIPOnly := flag_Bool flags ''ucloud-private-address-only''\<rparr>;
                           d6 = d5\<lparr>SecurityGroupName := flag_String flags ''ucloud-security-group''\<rparr>;
                           d7 = d6\<lparr>SSHUser := ToLower env (flag_String flags ''ucloud-ssh-user'')\<rparr>;
                           d8 = (if SSHUser d7 = [] then d7\<lparr>SSHUser := ''root''\<rparr> else d7);
                           d9 = d8\<lparr>Password := flag_String flags ''ucloud-user-password''\<rparr>;
                           d10 = d9\<lparr>SSHPort := 22\<rparr>
                       in (None, d10)))))"

definition PreCreateCheck :: "Driver \<Rightarrow> error option" where
  "PreCreateCheck d = None"

subsection \<open>Address and URL\<close>

definition GetIP :: "Driver \<Rightarrow> string \<times> error option" where
  "GetIP d =
     (if IPAddress d = [] then ([], Some (Errorf ''IP address is not set''))
      else (IPAddress d, None))"

definition GetURL :: "Driver \<Rightarrow> string \<times> error option" where
  "GetURL d =
     (case GetIP d of
        (ip, Some err) \<Rightarrow> ([], Some err)
      | (ip, None) \<Rightarrow> (''tcp://'' @ ip @ '':2376'', None))"

definition GetSSHHostname :: "Driver \<Rightarrow> string \<times> error option" where
  "GetSSHHostname d = GetIP d"

subsection \<open>State query\<close>

definition GetState :: "'w Env \<Rightarrow> 'w Sys \<Rightarrow> (State \<times> error option) \<times> 'w Sys" where
  "GetState env s =
     (if UhostID (driver s) = [] \<or> Region (driver s) = []
      then ((State_None, Some (Errorf ''region or uhost is empty'')), s)
      else
        (case invoke_method CallGetHostDescription (getHostDescription env) s of
           ((details, Some err), s1) \<Rightarrow>
             ((State_None, Some (Errorf (''get UHost details failed:'' @ Error err))), s1)
         | ((details, None), s1) \<Rightarrow>
             (let st =
                (case details of
                   None \<Rightarrow> State_None
                 | Some det \<Rightarrow>
                     if state det = [] then State_None
                     else if state det = ''Initializing'' \<or> state det = ''Starting''
                             \<or> state det = ''Rebooting'' then State_Starting
                     else if state det = ''Running'' then State_Running
                     else if state det = ''Stopped'' then State_Stopped
                     else if state det = ''Stopping'' then State_Stopping
                     else if state det = ''Install Fail'' then State_Error
                     else State_None)
              in ((st, None), s1))))"

subsection \<open>Waiting for a state\<close>

text \<open>
  Modelled from the spec: \<^verbatim>\<open>drivers.MachineInState\<close> is a function of libmachine, not of
  this file. It is the predicate of the poll, "current canonical status equals Running":
  it asks the driver for its state and compares it with the state wanted. An error of
  \<open>GetState\<close> comes with the state \<^verbatim>\<open>state.None\<close>, and the predicate returns a truth
  value only.
\<close>

definition MachineInState :: "'w Env \<Rightarrow> State \<Rightarrow> 'w Sys \<Rightarrow> bool \<times> 'w Sys" where
  "MachineInState env desiredState s =
     (case GetState env s of
        ((currentState, err), s1) \<Rightarrow> (currentState = desiredState, s1))"

text \<open>
  Modelled from the spec: \<^verbatim>\<open>mcnutils.WaitFor\<close> is a function of libmachine, not of this
  file. It evaluates the predicate up to the maximal number of attempts, returns success on
  the first true result, and returns a timeout error if the attempts are exhausted without
  success.
\<close>

fun WaitForSpecific ::
  "('s \<Rightarrow> bool \<times> 's) \<Rightarrow> nat \<Rightarrow> error \<Rightarrow> 's \<Rightarrow> error option \<times> 's" where
  "WaitForSpecific f 0 terr s = (Some terr, s)"
| "WaitForSpecific f (Suc n) terr s =
     (case f s of
        (stop, s1) \<Rightarrow> if stop then (None, s1) else WaitForSpecific f n terr s1)"

definition WaitFor :: "'w Env \<Rightarrow> ('w Sys \<Rightarrow> bool \<times> 'w Sys) \<Rightarrow> 'w Sys \<Rightarrow> error option \<times> 'w Sys" where
  "WaitFor env f s = WaitForSpecific f (maxAttempts env) (timeoutError env) s"

subsection \<open>Provisioning\<close>

definition Create :: "'w Env \<Rightarrow> 'w Sys \<Rightarrow> error option \<times> 'w Sys" where
  "Create env s =
     (if Password (driver s) = []
      then (Some (Errorf ''ucloud driver requires --ucloud-user-password options.''), s)
      else
        (case invoke_method CallCreateKeyPair (createKeyPair env) s of
           (Some err, s1) \<Rightarrow> (Some (Errorf (''unable to create key pair: '' @ Error err)), s1)
         | (None, s1) \<Rightarrow>
        (case invoke_method CallCreateUHost (createUHost env) s1 of
           (Some err, s2) \<Rightarrow> (Some (Errorf (''create UHost failed:'' @ Error err)), s2)
         | (None, s2) \<Rightarrow>
        (case WaitFor env (MachineInState env State_Running) s2 of
           (Some err, s3) \<Rightarrow>
             (Some (Errorf (''wait for machine running failed: '' @ Error err)), s3)
         | (None, s3) \<Rightarrow>
        (case invoke_method CallCreateUNet (createUNet env) s3 of
           (Some err, s4) \<Rightarrow> (Some (Errorf (''create networks failed:'' @ Error err)), s4)
         | (None, s4) \<Rightarrow>
        (case invoke_method CallUploadKeyPair (uploadKeyPair env) s4 of
           (Some err, s5) \<Rightarrow> (Some (Errorf (''upload keypair failed:'' @ Error err)), s5)
         | (None, s5) \<Rightarrow> (None, s5)))))))"

subsection \<open>Lifecycle\<close>

definition Start :: "'w Env \<Rightarrow> 'w Sys \<Rightarrow> error option \<times> 'w Sys" where
  "Start env s =
     (case invoke_function (CallStartUHost (Region (driver s)) (UhostID (driver s)))
             (startUHost env (Region (driver s)) (UhostID (driver s))) s of
        (Some err, s1) \<Rightarrow>
          (Some (Errorf (''Cannot start Machine:'' @ MachineName (driver s1) @ '', with UHost: ''
                          @ UhostID (driver s1) @ ''.'')), s1)
      | (None, s1) \<Rightarrow> (None, s1))"

definition Stop :: "'w Env \<Rightarrow> 'w Sys \<Rightarrow> error option \<times> 'w Sys" where
  "Stop env s =
     (if length (UhostID (driver s)) = 0
      then (Some (Errorf (''UHost is not exist for Machine:'' @ MachineName (driver s))), s)
      else
        (case invoke_function (CallStopUHost (Region (driver s)) (UhostID (driver s)))
                (stopUHost env (Region (driver s)) (UhostID (driver s))) s of
           (Some err, s1) \<Rightarrow>
             (Some (Errorf (''Cannot start Machine:'' @ MachineName (driver s1) @ '', with UHost: ''
                             @ UhostID (driver s1) @ ''.'')), s1)
         | (None, s1) \<Rightarrow> (None, s1)))"

definition Remove :: "'w Env \<Rightarrow> 'w Sys \<Rightarrow> error option \<times> 'w Sys" where
  "Remove env s =
     (case invoke_function (CallTerminateUHost (Region (driver s)) (UhostID (driver s)))
             (terminateUHost env (Region (driver s)) (UhostID (driver s))) s of
        (Some err, s1) \<Rightarrow>
          (Some (Errorf (''Unable to terminate the UHost instance:'' @ Error err)), s1)
      | (None, s1) \<Rightarrow> (None, s1))"

definition Restart :: "'w Env \<Rightarrow> 'w Sys \<Rightarrow> error option \<times> 'w Sys" where
  "Restart env s =
     (case invoke_function (CallRebootUHost (Region (driver s)) (UhostID (driver s)))
             (rebootUHost env (Region (driver s)) (UhostID (driver s))) s of
        (Some err, s1) \<Rightarrow>
          (Some (Errorf (''Unable to restart the UHost instance:'' @ Error err)), s1)
      | (None, s1) \<Rightarrow> (None, s1))"

definition Kill :: "'w Env \<Rightarrow> 'w Sys \<Rightarrow> error option \<times> 'w Sys" where
  "Kill env s =
     (case invoke_function (CallKillUHost (Region (driver s)) (UhostID (driver s)))
             (killUHost env (Region (driver s)) (UhostID (driver s))) s of
        (Some err, s1) \<Rightarrow>
          (Some (Errorf (''Unable to kill the UHost instance:'' @ Error err)), s1)
      | (None, s1) \<Rightarrow> (None, s1))"

subsection \<open>A provider to run the driver against\<close>

text \<open>
  A remote world for concrete runs: the statuses that the provider will report, in order,
  the last one for ever; with no status at all, describing the instance fails. The four
  provisioning helpers and the five lifecycle helpers return the results given; creating the
  instance records the id \<open>uhost-1\<close>, creating the network records two addresses.
\<close>

definition fakeDescribe ::
  "Driver \<Rightarrow> string list \<Rightarrow> (UHostDetails option \<times> error option) \<times> Driver \<times> string list" where
  "fakeDescribe d w =
     (case w of
        [] \<Rightarrow> ((None, Some (Errorf ''describe failed'')), d, [])
      | [x] \<Rightarrow> ((Some \<lparr> state = x \<rparr>, None), d, [x])
      | x # y # ys \<Rightarrow> ((Some \<lparr> state = x \<rparr>, None), d, y # ys))"

definition fakeEnv ::
  "error option \<Rightarrow> error option \<Rightarrow> error option \<Rightarrow> error option \<Rightarrow> error option
     \<Rightarrow> nat \<Rightarrow> string list Env" where
  "fakeEnv keyRes hostRes netRes uploadRes opRes n =
     \<lparr> createKeyPair = (\<lambda>d w. (keyRes, d, w)),
       createUHost = (\<lambda>d w. (hostRes, (if hostRes = None then d\<lparr>UhostID := ''uhost-1''\<rparr> else d), w)),
       getHostDescription = fakeDescribe,
       createUNet = (\<lambda>d w. (netRes,
          (if netRes = None
           then d\<lparr>IPAddress := ''203.0.113.7'', PrivateIPAddress := ''10.0.0.7''\<rparr> else d), w)),
       uploadKeyPair = (\<lambda>d w. (uploadRes, d, w)),
       startUHost = (\<lambda>region uhostID w. (opRes, w)),
       stopUHost = (\<lambda>region uhostID w. (opRes, w)),
       terminateUHost = (\<lambda>region uhostID w. (opRes, w)),
       rebootUHost = (\<lambda>region uhostID w. (opRes, w)),
       killUHost = (\<lambda>region uhostID w. (opRes, w)),
       validateUCloudRegion = (\<lambda>r. if r = ''cn-north-03'' then (r, None)
                                    else ([], Some (Errorf ''invalid region''))),
       ToLower = (\<lambda>x. x),
       maxAttempts = n,
       timeoutError = Errorf ''Maximum number of retries exceeded'' \<rparr>"

definition okEnv :: "string list Env" where
  "okEnv = fakeEnv None None None None None 3"

definition fakeSys :: "Driver \<Rightarrow> string list \<Rightarrow> string list Sys" where
  "fakeSys d w = \<lparr> driver = d, world = w, calls = [] \<rparr>"

definition fakeFlags :: "string \<Rightarrow> string \<Rightarrow> string \<Rightarrow> int \<Rightarrow> DriverOptions" where
  "fakeFlags publicKey privateKey password port =
     \<lparr> flag_String = (\<lambda>k. if k = ''ucloud-region'' then ''cn-north-03''
                           else if k = ''ucloud-public-key'' then publicKey
                           else if k = ''ucloud-private-key'' then privateKey
                           else if k = ''ucloud-user-password'' then password
                           else if k = ''ucloud-ssh-user'' then ''root''
                           else if k = ''ucloud-security-group'' then ''docker-machine''
                           else []),
       flag_Int = (\<lambda>k. if k = ''ucloud-ssh-port'' then port else 0),
       flag_Bool = (\<lambda>k. False) \<rparr>"

definition readyDriver :: Driver where
  "readyDriver = (NewDriver ''m1'' ''/tmp'')\<lparr>PublicKey := ''pub'', PrivateKey := ''priv'', Password := ''pw''\<rparr>"

definition failure :: "string \<Rightarrow> error option" where
  "failure cause = Some (Errorf cause)"

section \<open>Properties\<close>

subsection \<open>Auxiliary facts\<close>

lemmas fake_defs = fakeEnv_def fakeSys_def fakeDescribe_def readyDriver_def NewDriver_def
  failure_def okEnv_def defaultRegion_def

lemmas run_defs = Create_def WaitFor_def MachineInState_def GetState_def invoke_method_def
  invoke_function_def

lemma invoke_method_calls:
  "invoke_method c m s = (r, s1) \<Longrightarrow> calls s1 = calls s @ [c]"
  by (auto simp: invoke_method_def split: prod.splits)

lemma GetState_calls:
  "calls (snd (GetState env s)) = calls s
   \<or> calls (snd (GetState env s)) = calls s @ [CallGetHostDescription]"
  by (auto simp: GetState_def invoke_method_def Let_def split: prod.splits option.splits)

lemma MachineInState_calls:
  "calls (snd (MachineInState env st s)) = calls s
   \<or> calls (snd (MachineInState env st s)) = calls s @ [CallGetHostDescription]"
  using GetState_calls [of env s]
  by (auto simp: MachineInState_def split: prod.splits)

lemma WaitForSpecific_error:
  "fst (WaitForSpecific f n terr s) = Some e \<Longrightarrow> e = terr"
  by (induction n arbitrary: s) (auto split: prod.splits if_splits)

lemma WaitForSpecific_calls:
  "\<exists>k\<le>n. calls (snd (WaitForSpecific (MachineInState env st) n terr s))
            = calls s @ replicate k CallGetHostDescription"
proof (induction n arbitrary: s)
  case 0
  show ?case by simp
next
  case (Suc n)
  obtain b s1 where p: "MachineInState env st s = (b, s1)"
    by (cases "MachineInState env st s")
  from MachineInState_calls [of env st s] p
  have "calls s1 = calls s @ replicate 0 CallGetHostDescription
        \<or> calls s1 = calls s @ replicate 1 CallGetHostDescription"
    by simp
  then obtain j where j: "j \<le> 1" "calls s1 = calls s @ replicate j CallGetHostDescription"
    by (metis le_numeral_extra(4) zero_le)
  show ?case
  proof (cases b)
    case True
    with p j show ?thesis
      by (intro exI [of _ j]) simp
  next
    case False
    from Suc.IH [of s1] obtain k where k: "k \<le> n"
      "calls (snd (WaitForSpecific (MachineInState env st) n terr s1))
         = calls s1 @ replicate k CallGetHostDescription"
      by blast
    with p j False show ?thesis
      by (intro exI [of _ "j + k"]) (simp add: replicate_add)
  qed
qed

lemma WaitFor_calls:
  "WaitFor env (MachineInState env st) s = (r, s1) \<Longrightarrow>
     \<exists>k\<le>maxAttempts env. calls s1 = calls s @ replicate k CallGetHostDescription"
  using WaitForSpecific_calls [of "maxAttempts env" env st "timeoutError env" s]
  by (simp add: WaitFor_def)

lemma WaitFor_error:
  "fst (WaitFor env f s) = Some e \<Longrightarrow> e = timeoutError env"
  using WaitForSpecific_error [of f "maxAttempts env" "timeoutError env" s e]
  by (simp add: WaitFor_def)

subsection \<open>Status mapping\<close>

text \<open>
  Claim C1. When the region and the instance id are set and the provider describes the
  instance without error, \<open>GetState\<close> returns no error and maps the provider's status
  string by the table: Initializing, Starting and Rebooting to Starting, Running to Running,
  Stopped to Stopped, Stopping to Stopping, Install Fail to Error, and every other string to
  \<^verbatim>\<open>state.None\<close>, the value of libmachine that stands for an unknown status.
\<close>

theorem GetState_status_table:
  assumes "UhostID (driver s) \<noteq> []" and "Region (driver s) \<noteq> []"
    and "getHostDescription env (driver s) (world s) = ((Some det, None), d1, w1)"
  shows "snd (fst (GetState env s)) = None
    \<and> (state det = ''Initializing'' \<or> state det = ''Starting'' \<or> state det = ''Rebooting''
          \<longrightarrow> fst (fst (GetState env s)) = State_Starting)
    \<and> (state det = ''Running'' \<longrightarrow> fst (fst (GetState env s)) = State_Running)
    \<and> (state det = ''Stopped'' \<longrightarrow> fst (fst (GetState env s)) = State_Stopped)
    \<and> (state det = ''Stopping'' \<longrightarrow> fst (fst (GetState env s)) = State_Stopping)
    \<and> (state det = ''Install Fail'' \<longrightarrow> fst (fst (GetState env s)) = State_Error)
    \<and> (state det \<notin> {''Initializing'', ''Starting'', ''Rebooting'', ''Running'', ''Stopped'',
                      ''Stopping'', ''Install Fail''}
          \<longrightarrow> fst (fst (GetState env s)) = State_None)"
  using assms by (simp add: GetState_def invoke_method_def)

theorem GetState_status_table_witness:
  "fst (GetState okEnv (fakeSys (readyDriver\<lparr>UhostID := ''uhost-1''\<rparr>) [''Rebooting'']))
     = (State_Starting, None)
   \<and> fst (GetState okEnv (fakeSys (readyDriver\<lparr>UhostID := ''uhost-1''\<rparr>) [''Running'']))
     = (State_Running, None)
   \<and> fst (GetState okEnv (fakeSys (readyDriver\<lparr>UhostID := ''uhost-1''\<rparr>) [''Stopped'']))
     = (State_Stopped, None)
   \<and> fst (GetState okEnv (fakeSys (readyDriver\<lparr>UhostID := ''uhost-1''\<rparr>) [''Stopping'']))
     = (State_Stopping, None)
   \<and> fst (GetState okEnv (fakeSys (readyDriver\<lparr>UhostID := ''uhost-1''\<rparr>) [''Install Fail'']))
     = (State_Error, None)
   \<and> fst (GetState okEnv (fakeSys (readyDriver\<lparr>UhostID := ''uhost-1''\<rparr>) [''Paused'']))
     = (State_None, None)"
proof -
  let ?d = "readyDriver\<lparr>UhostID := ''uhost-1''\<rparr>"
  have id: "UhostID (driver (fakeSys ?d w)) \<noteq> []" for w
    by (simp add: fakeSys_def)
  have rg: "Region (driver (fakeSys ?d w)) \<noteq> []" for w
    by (simp add: fake_defs)
  have ds: "getHostDescription okEnv (driver (fakeSys ?d [x])) (world (fakeSys ?d [x]))
              = ((Some \<lparr> state = x \<rparr>, None), ?d, [x])" for x
    by (simp add: okEnv_def fakeEnv_def fakeSys_def fakeDescribe_def)
  show ?thesis
    using GetState_status_table [OF id rg ds, of "''Rebooting''"]
      GetState_status_table [OF id rg ds, of "''Running''"]
      GetState_status_table [OF id rg ds, of "''Stopped''"]
      GetState_status_table [OF id rg ds, of "''Stopping''"]
      GetState_status_table [OF id rg ds, of "''Install Fail''"]
      GetState_status_table [OF id rg ds, of "''Paused''"]
    by (simp add: prod_eq_iff)
qed

subsection \<open>Provisioning\<close>

text \<open>
  Claim C2. With a password set, \<open>Create\<close> runs key-pair creation, instance creation, the
  bounded poll for Running, network creation and key-pair upload in this order. When a step
  fails, \<open>Create\<close> returns at once an error made of the step's message and the cause,
  in the state that the failing step left: the calls made are exactly those up to the
  failing step, so no later step runs and nothing is undone. When all steps succeed it
  returns no error after the five steps.
\<close>

theorem Create_steps_in_order:
  assumes "Password (driver s) \<noteq> []"
  shows
    "(\<forall>e s1. invoke_method CallCreateKeyPair (createKeyPair env) s = (Some e, s1) \<longrightarrow>
        Create env s = (Some (Errorf (''unable to create key pair: '' @ Error e)), s1)
        \<and> calls s1 = calls s @ [CallCreateKeyPair])
   \<and> (\<forall>e s1 s2. invoke_method CallCreateKeyPair (createKeyPair env) s = (None, s1)
        \<and> invoke_method CallCreateUHost (createUHost env) s1 = (Some e, s2) \<longrightarrow>
        Create env s = (Some (Errorf (''create UHost failed:'' @ Error e)), s2)
        \<and> calls s2 = calls s @ [CallCreateKeyPair, CallCreateUHost])
   \<and> (\<forall>e s1 s2 s3. invoke_method CallCreateKeyPair (createKeyPair env) s = (None, s1)
        \<and> invoke_method CallCreateUHost (createUHost env) s1 = (None, s2)
        \<and> WaitFor env (MachineInState env State_Running) s2 = (Some e, s3) \<longrightarrow>
        Create env s = (Some (Errorf (''wait for machine running failed: '' @ Error e)), s3)
        \<and> (\<exists>k\<le>maxAttempts env. calls s3 = calls s @ [CallCreateKeyPair, CallCreateUHost]
              @ replicate k CallGetHostDescription))
   \<and> (\<forall>e s1 s2 s3 s4. invoke_method CallCreateKeyPair (createKeyPair env) s = (None, s1)
        \<and> invoke_method CallCreateUHost (createUHost env) s1 = (None, s2)
        \<and> WaitFor env (MachineInState env State_Running) s2 = (None, s3)
        \<and> invoke_method CallCreateUNet (createUNet env) s3 = (Some e, s4) \<longrightarrow>
        Create env s = (Some (Errorf (''create networks failed:'' @ Error e)), s4)
        \<and> (\<exists>k\<le>maxAttempts env. calls s4 = calls s @ [CallCreateKeyPair, CallCreateUHost]
              @ replicate k CallGetHostDescription @ [CallCreateUNet]))
   \<and> (\<forall>e s1 s2 s3 s4 s5. invoke_method CallCreateKeyPair (createKeyPair env) s = (None, s1)
        \<and> invoke_method CallCreateUHost (createUHost env) s1 = (None, s2)
        \<and> WaitFor env (MachineInState env State_Running) s2 = (None, s3)
        \<and> invoke_method CallCreateUNet (createUNet env) s3 = (None, s4)
        \<and> invoke_method CallUploadKeyPair (uploadKeyPair env) s4 = (Some e, s5) \<longrightarrow>
        Create env s = (Some (Errorf (''upload keypair failed:'' @ Error e)), s5)
        \<and> (\<exists>k\<le>maxAttempts env. calls s5 = calls s @ [CallCreateKeyPair, CallCreateUHost]
              @ replicate k CallGetHostDescription @ [CallCreateUNet, CallUploadKeyPair]))
   \<and> (\<forall>s1 s2 s3 s4 s5. invoke_method CallCreateKeyPair (createKeyPair env) s = (None, s1)
        \<and> invoke_method CallCreateUHost (createUHost env) s1 = (None, s2)
        \<and> WaitFor env (MachineInState env State_Running) s2 = (None, s3)
        \<and> invoke_method CallCreateUNet (createUNet env) s3 = (None, s4)
        \<and> invoke_method CallUploadKeyPair (uploadKeyPair env) s4 = (None, s5) \<longrightarrow>
        Create env s = (None, s5)
        \<and> (\<exists>k\<le>maxAttempts env. calls s5 = calls s @ [CallCreateKeyPair, CallCreateUHost]
              @ replicate k CallGetHostDescription @ [CallCreateUNet, CallUploadKeyPair]))"
proof (intro conjI allI impI; (elim conjE)?)
  fix e s1
  assume "invoke_method CallCreateKeyPair (createKeyPair env) s = (Some e, s1)"
  with assms show "Create env s = (Some (Errorf (''unable to create key pair: '' @ Error e)), s1)"
    by (simp add: Create_def)
next
  fix e s1
  assume "invoke_method CallCreateKeyPair (createKeyPair env) s = (Some e, s1)"
  then show "calls s1 = calls s @ [CallCreateKeyPair]"
    by (rule invoke_method_calls)
next
  fix e s1 s2
  assume "invoke_method CallCreateKeyPair (createKeyPair env) s = (None, s1)"
    "invoke_method CallCreateUHost (createUHost env) s1 = (Some e, s2)"
  with assms show "Create env s = (Some (Errorf (''create UHost failed:'' @ Error e)), s2)"
    by (simp add: Create_def)
next
  fix e s1 s2
  assume "invoke_method CallCreateKeyPair (createKeyPair env) s = (None, s1)"
    "invoke_method CallCreateUHost (createUHost env) s1 = (Some e, s2)"
  then show "calls s2 = calls s @ [CallCreateKeyPair, CallCreateUHost]"
    by (simp add: invoke_method_calls)
next
  fix e s1 s2 s3
  assume "invoke_method CallCreateKeyPair (createKeyPair env) s = (None, s1)"
    "invoke_method CallCreateUHost (createUHost env) s1 = (None, s2)"
    "WaitFor env (MachineInState env State_Running) s2 = (Some e, s3)"
  with assms
  show "Create env s = (Some (Errorf (''wait for machine running failed: '' @ Error e)), s3)"
    by (simp add: Create_def)
next
  fix e s1 s2 s3
  assume a: "invoke_method CallCreateKeyPair (createKeyPair env) s = (None, s1)"
    "invoke_method CallCreateUHost (createUHost env) s1 = (None, s2)"
    "WaitFor env (MachineInState env State_Running) s2 = (Some e, s3)"
  from WaitFor_calls [OF a(3)] a(1,2)
  show "\<exists>k\<le>maxAttempts env. calls s3 = calls s @ [CallCreateKeyPair, CallCreateUHost]
              @ replicate k CallGetHostDescription"
    by (simp add: invoke_method_calls)
next
  fix e s1 s2 s3 s4
  assume "invoke_method CallCreateKeyPair (createKeyPair env) s = (None, s1)"
    "invoke_method CallCreateUHost (createUHost env) s1 = (None, s2)"
    "WaitFor env (MachineInState env State_Running) s2 = (None, s3)"
    "invoke_method CallCreateUNet (createUNet env) s3 = (Some e, s4)"
  with assms show "Create env s = (Some (Errorf (''create networks failed:'' @ Error e)), s4)"
    by (simp add: Create_def)
next
  fix e s1 s2 s3 s4
  assume a: "invoke_method CallCreateKeyPair (createKeyPair env) s = (None, s1)"
    "invoke_method CallCreateUHost (createUHost env) s1 = (None, s2)"
    "WaitFor env (MachineInState env State_Running) s2 = (None, s3)"
    "invoke_method CallCreateUNet (createUNet env) s3 = (Some e, s4)"
  from WaitFor_calls [OF a(3)] a(1,2,4)
  show "\<exists>k\<le>maxAttempts env. calls s4 = calls s @ [CallCreateKeyPair, CallCreateUHost]
              @ replicate k CallGetHostDescription @ [CallCreateUNet]"
    by (simp add: invoke_method_calls)
next
  fix e s1 s2 s3 s4 s5
  assume "invoke_method CallCreateKeyPair (createKeyPair env) s = (None, s1)"
    "invoke_method CallCreateUHost (createUHost env) s1 = (None, s2)"
    "WaitFor env (MachineInState env State_Running) s2 = (None, s3)"
    "invoke_method CallCreateUNet (createUNet env) s3 = (None, s4)"
    "invoke_method CallUploadKeyPair (uploadKeyPair env) s4 = (Some e, s5)"
  with assms show "Create env s = (Some (Errorf (''upload keypair failed:'' @ Error e)), s5)"
    by (simp add: Create_def)
next
  fix e s1 s2 s3 s4 s5
  assume a: "invoke_method CallCreateKeyPair (createKeyPair env) s = (None, s1)"
    "invoke_method CallCreateUHost (createUHost env) s1 = (None, s2)"
    "WaitFor env (MachineInState env State_Running) s2 = (None, s3)"
    "invoke_method CallCreateUNet (createUNet env) s3 = (None, s4)"
    "invoke_method CallUploadKeyPair (uploadKeyPair env) s4 = (Some e, s5)"
  from WaitFor_calls [OF a(3)] a(1,2,4,5)
  show "\<exists>k\<le>maxAttempts env. calls s5 = calls s @ [CallCreateKeyPair, CallCreateUHost]
              @ replicate k CallGetHostDescription @ [CallCreateUNet, CallUploadKeyPair]"
    by (simp add: invoke_method_calls)
next
  fix s1 s2 s3 s4 s5
  assume "invoke_method CallCreateKeyPair (createKeyPair env) s = (None, s1)"
    "invoke_method CallCreateUHost (createUHost env) s1 = (None, s2)"
    "WaitFor env (MachineInState env State_Running) s2 = (None, s3)"
    "invoke_method CallCreateUNet (createUNet env) s3 = (None, s4)"
    "invoke_method CallUploadKeyPair (uploadKeyPair env) s4 = (None, s5)"
  with assms show "Create env s = (None, s5)"
    by (simp add: Create_def)
next
  fix s1 s2 s3 s4 s5
  assume a: "invoke_method CallCreateKeyPair (createKeyPair env) s = (None, s1)"
    "invoke_method CallCreateUHost (createUHost env) s1 = (None, s2)"
    "WaitFor env (MachineInState env State_Running) s2 = (None, s3)"
    "invoke_method CallCreateUNet (createUNet env) s3 = (None, s4)"
    "invoke_method CallUploadKeyPair (uploadKeyPair env) s4 = (None, s5)"
  from WaitFor_calls [OF a(3)] a(1,2,4,5)
  show "\<exists>k\<le>maxAttempts env. calls s5 = calls s @ [CallCreateKeyPair, CallCreateUHost]
              @ replicate k CallGetHostDescription @ [CallCreateUNet, CallUploadKeyPair]"
    by (simp add: invoke_method_calls)
qed

theorem Create_steps_in_order_witness:
  "Create (fakeEnv (failure ''no entropy'') None None None None 3) (fakeSys readyDriver [''Running''])
     = (Some (Errorf ''unable to create key pair: no entropy''),
        \<lparr> driver = readyDriver, world = [''Running''], calls = [CallCreateKeyPair] \<rparr>)
   \<and> Create (fakeEnv None (failure ''quota exceeded'') None None None 3) (fakeSys readyDriver [''Running''])
     = (Some (Errorf ''create UHost failed:quota exceeded''),
        \<lparr> driver = readyDriver, world = [''Running''],
          calls = [CallCreateKeyPair, CallCreateUHost] \<rparr>)
   \<and> Create okEnv (fakeSys readyDriver [''Starting''])
     = (Some (Errorf ''wait for machine running failed: Maximum number of retries exceeded''),
        \<lparr> driver = readyDriver\<lparr>UhostID := ''uhost-1''\<rparr>, world = [''Starting''],
          calls = [CallCreateKeyPair, CallCreateUHost, CallGetHostDescription,
                   CallGetHostDescription, CallGetHostDescription] \<rparr>)
   \<and> Create (fakeEnv None None (failure ''no address left'') None None 3)
        (fakeSys readyDriver [''Starting'', ''Running''])
     = (Some (Errorf ''create networks failed:no address left''),
        \<lparr> driver = readyDriver\<lparr>UhostID := ''uhost-1''\<rparr>, world = [''Running''],
          calls = [CallCreateKeyPair, CallCreateUHost, CallGetHostDescription,
                   CallGetHostDescription, CallCreateUNet] \<rparr>)
   \<and> Create (fakeEnv None None None (failure ''connection reset'') None 3)
        (fakeSys readyDriver [''Running''])
     = (Some (Errorf ''upload keypair failed:connection reset''),
        \<lparr> driver = readyDriver\<lparr>UhostID := ''uhost-1'', IPAddress := ''203.0.113.7'',
                                 PrivateIPAddress := ''10.0.0.7''\<rparr>,
          world = [''Running''],
          calls = [CallCreateKeyPair, CallCreateUHost, CallGetHostDescription, CallCreateUNet,
                   CallUploadKeyPair] \<rparr>)
   \<and> Create okEnv (fakeSys readyDriver [''Starting'', ''Starting'', ''Running''])
     = (None,
        \<lparr> driver = readyDriver\<lparr>UhostID := ''uhost-1'', IPAddress := ''203.0.113.7'',
                                 PrivateIPAddress := ''10.0.0.7''\<rparr>,
          world = [''Running''],
          calls = [CallCreateKeyPair, CallCreateUHost, CallGetHostDescription,
                   CallGetHostDescription, CallGetHostDescription, CallCreateUNet,
                   CallUploadKeyPair] \<rparr>)"
proof -
  have pw: "Password (driver (fakeSys readyDriver w)) \<noteq> []" for w
    by (simp add: fake_defs)
  let ?envK = "fakeEnv (failure ''no entropy'') None None None None 3"
  let ?envH = "fakeEnv None (failure ''quota exceeded'') None None None 3"
  let ?envN = "fakeEnv None None (failure ''no address left'') None None 3"
  let ?envU = "fakeEnv None None None (failure ''connection reset'') None 3"
  have k: "invoke_method CallCreateKeyPair (createKeyPair ?envK) (fakeSys readyDriver [''Running''])
             = (Some (Errorf ''no entropy''),
                \<lparr> driver = readyDriver, world = [''Running''], calls = [CallCreateKeyPair] \<rparr>)"
    by (simp add: fake_defs invoke_method_def)
  from Create_steps_in_order [OF pw [of "[''Running'']"], where env = "?envK"] k
  have c1: "Create ?envK (fakeSys readyDriver [''Running''])
     = (Some (Errorf ''unable to create key pair: no entropy''),
        \<lparr> driver = readyDriver, world = [''Running''], calls = [CallCreateKeyPair] \<rparr>)"
    by simp
  have c2: "Create ?envH (fakeSys readyDriver [''Running''])
     = (Some (Errorf ''create UHost failed:quota exceeded''),
        \<lparr> driver = readyDriver, world = [''Running''],
          calls = [CallCreateKeyPair, CallCreateUHost] \<rparr>)"
    using Create_steps_in_order [OF pw [of "[''Running'']"], where env = "?envH"]
    by (simp add: fake_defs run_defs eval_nat_numeral)
  have c3: "Create okEnv (fakeSys readyDriver [''Starting''])
     = (Some (Errorf ''wait for machine running failed: Maximum number of retries exceeded''),
        \<lparr> driver = readyDriver\<lparr>UhostID := ''uhost-1''\<rparr>, world = [''Starting''],
          calls = [CallCreateKeyPair, CallCreateUHost, CallGetHostDescription,
                   CallGetHostDescription, CallGetHostDescription] \<rparr>)"
    using Create_steps_in_order [OF pw [of "[''Starting'']"], where env = "okEnv"]
    by (simp add: fake_defs run_defs eval_nat_numeral)
  have c4: "Create ?envN (fakeSys readyDriver [''Starting'', ''Running''])
     = (Some (Errorf ''create networks failed:no address left''),
        \<lparr> driver = readyDriver\<lparr>UhostID := ''uhost-1''\<rparr>, world = [''Running''],
          calls = [CallCreateKeyPair, CallCreateUHost, CallGetHostDescription,
                   CallGetHostDescription, CallCreateUNet] \<rparr>)"
    using Create_steps_in_order [OF pw [of "[''Starting'', ''Running'']"], where env = "?envN"]
    by (simp add: fake_defs run_defs eval_nat_numeral)
  have c5: "Create ?envU (fakeSys readyDriver [''Running''])
     = (Some (Errorf ''upload keypair failed:connection reset''),
        \<lparr> driver = readyDriver\<lparr>UhostID := ''uhost-1'', IPAddress := ''203.0.113.7'',
                                 PrivateIPAddress := ''10.0.0.7''\<rparr>,
          world = [''Running''],
          calls = [CallCreateKeyPair, CallCreateUHost, CallGetHostDescription, CallCreateUNet,
                   CallUploadKeyPair] \<rparr>)"
    using Create_steps_in_order [OF pw [of "[''Running'']"], where env = "?envU"]
    by (simp add: fake_defs run_defs eval_nat_numeral)
  have c6: "Create okEnv (fakeSys readyDriver [''Starting'', ''Starting'', ''Running''])
     = (None,
        \<lparr> driver = readyDriver\<lparr>UhostID := ''uhost-1'', IPAddress := ''203.0.113.7'',
                                 PrivateIPAddress := ''10.0.0.7''\<rparr>,
          world = [''Running''],
          calls = [CallCreateKeyPair, CallCreateUHost, CallGetHostDescription,
                   CallGetHostDescription, CallGetHostDescription, CallCreateUNet,
                   CallUploadKeyPair] \<rparr>)"
    using Create_steps_in_order [OF pw [of "[''Starting'', ''Starting'', ''Running'']"], where env = "okEnv"]
    by (simp add: fake_defs run_defs eval_nat_numeral)
  from c1 c2 c3 c4 c5 c6 show ?thesis by blast
qed

text \<open>
  Claim C3. Called with an empty password, \<open>Create\<close> returns the configuration error
  about the missing password and leaves the driver, the remote world and the list of calls
  as they were: no helper is called.
\<close>

theorem Create_empty_password:
  assumes "Password (driver s) = []"
  shows "Create env s
           = (Some (Errorf ''ucloud driver requires --ucloud-user-password options.''), s)"
  using assms by (simp add: Create_def)

theorem Create_empty_password_witness:
  "Create okEnv (fakeSys (NewDriver ''m1'' ''/tmp'') [''Running''])
     = (Some (Errorf ''ucloud driver requires --ucloud-user-password options.''),
        \<lparr> driver = NewDriver ''m1'' ''/tmp'', world = [''Running''], calls = [] \<rparr>)"
proof -
  have "Password (driver (fakeSys (NewDriver ''m1'' ''/tmp'') [''Running''])) = []"
    by (simp add: fakeSys_def NewDriver_def)
  from Create_empty_password [OF this, of okEnv] show ?thesis
    by (simp add: fakeSys_def)
qed

text \<open>
  Claim C4, as amended. \<open>Create\<close> validates the password only: with an empty password it
  fails before any call. The credentials are validated by \<open>SetConfigFromFlags\<close>, which
  calls no provisioning helper: once the region is accepted, an empty public key gives the
  error about the public key, and an empty private key with a public key present gives the
  error about the private key; so whenever one of the two is empty it returns an error.
\<close>

theorem validation_gates:
  "(Password (driver s) = [] \<longrightarrow>
      Create env s
        = (Some (Errorf ''ucloud driver requires --ucloud-user-password options.''), s))
   \<and> (\<forall>region. validateUCloudRegion env (flag_String flags ''ucloud-region'') = (region, None)
        \<and> flag_String flags ''ucloud-public-key'' = [] \<longrightarrow>
        fst (SetConfigFromFlags env flags d)
          = Some (Errorf ''ucloud driver requires the --ucloud-public-key option''))
   \<and> (\<forall>region. validateUCloudRegion env (flag_String flags ''ucloud-region'') = (region, None)
        \<and> flag_String flags ''ucloud-public-key'' \<noteq> []
        \<and> flag_String flags ''ucloud-private-key'' = [] \<longrightarrow>
        fst (SetConfigFromFlags env flags d)
          = Some (Errorf ''ucloud driver requires the --ucloud-private-key option''))
   \<and> (flag_String flags ''ucloud-public-key'' = [] \<or> flag_String flags ''ucloud-private-key'' = []
        \<longrightarrow> fst (SetConfigFromFlags env flags d) \<noteq> None)"
  by (auto simp: Create_def SetConfigFromFlags_def Let_def split: prod.splits option.splits)

theorem validation_gates_witness:
  "Create okEnv (fakeSys (NewDriver ''m1'' ''/tmp'') [''Running''])
     = (Some (Errorf ''ucloud driver requires --ucloud-user-password options.''),
        fakeSys (NewDriver ''m1'' ''/tmp'') [''Running''])
   \<and> fst (SetConfigFromFlags okEnv (fakeFlags [] ''priv'' ''pw'' 22) (NewDriver ''m1'' ''/tmp''))
     = Some (Errorf ''ucloud driver requires the --ucloud-public-key option'')
   \<and> fst (SetConfigFromFlags okEnv (fakeFlags ''pub'' [] ''pw'' 22) (NewDriver ''m1'' ''/tmp''))
     = Some (Errorf ''ucloud driver requires the --ucloud-private-key option'')"
proof -
  have pw: "Password (driver (fakeSys (NewDriver ''m1'' ''/tmp'') [''Running''])) = []"
    by (simp add: fakeSys_def NewDriver_def)
  have rg: "validateUCloudRegion okEnv (flag_String (fakeFlags a b c p) ''ucloud-region'')
              = (''cn-north-03'', None)" for a b c p
    by (simp add: okEnv_def fakeEnv_def fakeFlags_def)
  have f1: "flag_String (fakeFlags [] ''priv'' ''pw'' 22) ''ucloud-public-key'' = []"
    by (simp add: fakeFlags_def)
  have f2: "flag_String (fakeFlags ''pub'' [] ''pw'' 22) ''ucloud-public-key'' \<noteq> []"
    "flag_String (fakeFlags ''pub'' [] ''pw'' 22) ''ucloud-private-key'' = []"
    by (simp_all add: fakeFlags_def)
  from validation_gates [where s = "fakeSys (NewDriver ''m1'' ''/tmp'') [''Running'']"
      and env = okEnv and flags = "fakeFlags [] ''priv'' ''pw'' 22" and d = "NewDriver ''m1'' ''/tmp''"]
    validation_gates [where s = "fakeSys (NewDriver ''m1'' ''/tmp'') [''Running'']"
      and env = okEnv and flags = "fakeFlags ''pub'' [] ''pw'' 22" and d = "NewDriver ''m1'' ''/tmp''"]
    pw rg f1 f2
  show ?thesis by blast
qed

theorem Create_empty_credentials_counterexample:
  "PublicKey ((NewDriver ''m1'' ''/tmp'')\<lparr>Password := ''pw''\<rparr>) = []
   \<and> PrivateKey ((NewDriver ''m1'' ''/tmp'')\<lparr>Password := ''pw''\<rparr>) = []
   \<and> Create okEnv (fakeSys ((NewDriver ''m1'' ''/tmp'')\<lparr>Password := ''pw''\<rparr>) [''Running''])
     = (None,
        \<lparr> driver = (NewDriver ''m1'' ''/tmp'')\<lparr>Password := ''pw'', UhostID := ''uhost-1'',
                      IPAddress := ''203.0.113.7'', PrivateIPAddress := ''10.0.0.7''\<rparr>,
          world = [''Running''],
          calls = [CallCreateKeyPair, CallCreateUHost, CallGetHostDescription, CallCreateUNet,
                   CallUploadKeyPair] \<rparr>)"
  by (simp add: fake_defs run_defs eval_nat_numeral)

text \<open>
  Claim C5, as amended. When the two creation steps succeed and the bounded poll for Running
  gives up, \<open>Create\<close> returns the error with the message
  \<^verbatim>\<open>wait for machine running failed: \<close> followed by the message of the wait primitive's
  own timeout error, which is fixed by the wait primitive and not by the statuses observed;
  the calls made are the two creation steps and at most the maximal number of status
  queries, so the network is not created and the key pair is not uploaded.
\<close>

theorem Create_poll_timeout:
  assumes "Password (driver s) \<noteq> []"
    and "invoke_method CallCreateKeyPair (createKeyPair env) s = (None, s1)"
    and "invoke_method CallCreateUHost (createUHost env) s1 = (None, s2)"
    and "fst (WaitFor env (MachineInState env State_Running) s2) \<noteq> None"
  shows "fst (Create env s)
           = Some (Errorf (''wait for machine running failed: '' @ Error (timeoutError env)))
    \<and> (\<exists>k\<le>maxAttempts env. calls (snd (Create env s))
          = calls s @ [CallCreateKeyPair, CallCreateUHost] @ replicate k CallGetHostDescription)"
proof -
  obtain e s3 where w: "WaitFor env (MachineInState env State_Running) s2 = (Some e, s3)"
    using assms(4) by (cases "WaitFor env (MachineInState env State_Running) s2") auto
  then have e: "e = timeoutError env"
    using WaitFor_error [of env "MachineInState env State_Running" s2 e] by simp
  from assms(1-3) w have c: "Create env s
      = (Some (Errorf (''wait for machine running failed: '' @ Error e)), s3)"
    by (simp add: Create_def)
  from WaitFor_calls [OF w] assms(2,3)
  have "\<exists>k\<le>maxAttempts env. calls s3
          = calls s @ [CallCreateKeyPair, CallCreateUHost] @ replicate k CallGetHostDescription"
    by (simp add: invoke_method_calls)
  with c e show ?thesis by simp
qed

theorem Create_poll_timeout_witness:
  "fst (Create okEnv (fakeSys readyDriver [''Starting'']))
     = Some (Errorf ''wait for machine running failed: Maximum number of retries exceeded'')
   \<and> (\<exists>k\<le>3. calls (snd (Create okEnv (fakeSys readyDriver [''Starting''])))
         = [CallCreateKeyPair, CallCreateUHost] @ replicate k CallGetHostDescription)"
proof -
  let ?s = "fakeSys readyDriver [''Starting'']"
  let ?s1 = "\<lparr> driver = readyDriver, world = [''Starting''], calls = [CallCreateKeyPair] \<rparr>"
  let ?s2 = "\<lparr> driver = readyDriver\<lparr>UhostID := ''uhost-1''\<rparr>, world = [''Starting''],
               calls = [CallCreateKeyPair, CallCreateUHost] \<rparr>"
  have pw: "Password (driver ?s) \<noteq> []"
    by (simp add: fake_defs)
  have k: "invoke_method CallCreateKeyPair (createKeyPair okEnv) ?s = (None, ?s1)"
    by (simp add: fake_defs invoke_method_def)
  have h: "invoke_method CallCreateUHost (createUHost okEnv) ?s1 = (None, ?s2)"
    by (simp add: fake_defs invoke_method_def)
  have p: "fst (WaitFor okEnv (MachineInState okEnv State_Running) ?s2) \<noteq> None"
    by (simp add: fake_defs run_defs eval_nat_numeral)
  have t: "Error (timeoutError okEnv) = ''Maximum number of retries exceeded''"
    "maxAttempts okEnv = 3" "calls ?s = []"
    by (simp_all add: fake_defs)
  from Create_poll_timeout [OF pw k h p] show ?thesis
    unfolding t by simp
qed

theorem Create_poll_timeout_counterexample:
  "fst (Create okEnv (fakeSys readyDriver [''Starting'']))
     = Some (Errorf ''wait for machine running failed: Maximum number of retries exceeded'')
   \<and> fst (Create okEnv (fakeSys readyDriver [''Stopped'']))
     = Some (Errorf ''wait for machine running failed: Maximum number of retries exceeded'')
   \<and> fst (Create okEnv (fakeSys readyDriver [''Install Fail'']))
     = Some (Errorf ''wait for machine running failed: Maximum number of retries exceeded'')
   \<and> fst (getHostDescription okEnv (readyDriver\<lparr>UhostID := ''uhost-1''\<rparr>) [])
     = (None, Some (Errorf ''describe failed''))
   \<and> fst (Create okEnv (fakeSys readyDriver []))
     = Some (Errorf ''wait for machine running failed: Maximum number of retries exceeded'')"
  by (simp add: fake_defs run_defs eval_nat_numeral)

subsection \<open>Lifecycle\<close>

text \<open>
  Claim C6. \<open>Stop\<close> on a driver whose instance id is empty returns the error that no
  instance exists for the machine, and leaves the driver, the remote world and the list of
  calls as they were: the provider is not called.
\<close>

theorem Stop_without_instance:
  assumes "UhostID (driver s) = []"
  shows "Stop env s
           = (Some (Errorf (''UHost is not exist for Machine:'' @ MachineName (driver s))), s)"
  using assms by (simp add: Stop_def)

theorem Stop_without_instance_witness:
  "Stop okEnv (fakeSys (NewDriver ''m1'' ''/tmp'') [''Running''])
     = (Some (Errorf ''UHost is not exist for Machine:m1''),
        \<lparr> driver = NewDriver ''m1'' ''/tmp'', world = [''Running''], calls = [] \<rparr>)"
proof -
  have "UhostID (driver (fakeSys (NewDriver ''m1'' ''/tmp'') [''Running''])) = []"
    by (simp add: fakeSys_def NewDriver_def)
  from Stop_without_instance [OF this, of okEnv] show ?thesis
    by (simp add: fakeSys_def NewDriver_def)
qed

text \<open>
  Claim C7. \<open>Stop\<close> and \<open>GetState\<close> reject a driver without an instance id before any
  call, but \<open>Start\<close>, \<open>Restart\<close>, \<open>Kill\<close> and \<open>Remove\<close> have no such check: on a new
  driver, whose instance id is empty, each of them calls its helper with the empty id, and
  returns no error when the helper returns none.
\<close>

theorem lifecycle_without_instance_calls_provider:
  "UhostID (NewDriver ''m1'' ''/tmp'') = []
   \<and> Start okEnv (fakeSys (NewDriver ''m1'' ''/tmp'') [''Running''])
     = (None, \<lparr> driver = NewDriver ''m1'' ''/tmp'', world = [''Running''],
                calls = [CallStartUHost ''cn-north-03'' []] \<rparr>)
   \<and> Restart okEnv (fakeSys (NewDriver ''m1'' ''/tmp'') [''Running''])
     = (None, \<lparr> driver = NewDriver ''m1'' ''/tmp'', world = [''Running''],
                calls = [CallRebootUHost ''cn-north-03'' []] \<rparr>)
   \<and> Kill okEnv (fakeSys (NewDriver ''m1'' ''/tmp'') [''Running''])
     = (None, \<lparr> driver = NewDriver ''m1'' ''/tmp'', world = [''Running''],
                calls = [CallKillUHost ''cn-north-03'' []] \<rparr>)
   \<and> Remove okEnv (fakeSys (NewDriver ''m1'' ''/tmp'') [''Running''])
     = (None, \<lparr> driver = NewDriver ''m1'' ''/tmp'', world = [''Running''],
                calls = [CallTerminateUHost ''cn-north-03'' []] \<rparr>)
   \<and> Stop okEnv (fakeSys (NewDriver ''m1'' ''/tmp'') [''Running''])
     = (Some (Errorf ''UHost is not exist for Machine:m1''),
        fakeSys (NewDriver ''m1'' ''/tmp'') [''Running''])
   \<and> GetState okEnv (fakeSys (NewDriver ''m1'' ''/tmp'') [''Running''])
     = ((State_None, Some (Errorf ''region or uhost is empty'')),
        fakeSys (NewDriver ''m1'' ''/tmp'') [''Running''])"
  by (simp add: fake_defs Start_def Restart_def Kill_def Remove_def Stop_def GetState_def
      invoke_function_def)

text \<open>
  Claim C8, as amended. A failed remote call makes each operation return an error, but not
  of one shape. \<open>Start\<close> names the verb, the machine and the instance id and leaves the
  cause out. \<open>Stop\<close>, on a driver with an instance id, returns a message of the same
  form as \<open>Start\<close>, with one fixed verb, the machine and the instance id: the message is
  the same whatever the cause. \<open>Restart\<close> and \<open>Remove\<close> name the verb and keep the
  cause, and leave the instance id out.
\<close>

theorem lifecycle_error_messages:
  "(\<forall>e w1. startUHost env (Region (driver s)) (UhostID (driver s)) (world s) = (Some e, w1)
        \<longrightarrow> fst (Start env s)
              = Some (Errorf (''Cannot start Machine:'' @ MachineName (driver s)
                              @ '', with UHost: '' @ UhostID (driver s) @ ''.'')))
   \<and> (\<exists>verb. \<forall>(env' :: 'w Env) (s' :: 'w Sys) e w1. UhostID (driver s') \<noteq> []
        \<and> stopUHost env' (Region (driver s')) (UhostID (driver s')) (world s') = (Some e, w1)
        \<longrightarrow> fst (Stop env' s')
              = Some (Errorf (''Cannot '' @ verb @ '' Machine:'' @ MachineName (driver s')
                              @ '', with UHost: '' @ UhostID (driver s') @ ''.'')))
   \<and> (\<forall>e w1. rebootUHost env (Region (driver s)) (UhostID (driver s)) (world s) = (Some e, w1)
        \<longrightarrow> fst (Restart env s)
              = Some (Errorf (''Unable to restart the UHost instance:'' @ Error e)))
   \<and> (\<forall>e w1. terminateUHost env (Region (driver s)) (UhostID (driver s)) (world s) = (Some e, w1)
        \<longrightarrow> fst (Remove env s)
              = Some (Errorf (''Unable to terminate the UHost instance:'' @ Error e)))"
  for env :: "'w Env" and s :: "'w Sys"
proof (intro conjI)
  show "\<forall>e w1. startUHost env (Region (driver s)) (UhostID (driver s)) (world s) = (Some e, w1)
        \<longrightarrow> fst (Start env s)
              = Some (Errorf (''Cannot start Machine:'' @ MachineName (driver s)
                              @ '', with UHost: '' @ UhostID (driver s) @ ''.''))"
    by (simp add: Start_def invoke_function_def)
next
  have "\<forall>(env' :: 'w Env) (s' :: 'w Sys) e w1. UhostID (driver s') \<noteq> []
        \<and> stopUHost env' (Region (driver s')) (UhostID (driver s')) (world s') = (Some e, w1)
        \<longrightarrow> fst (Stop env' s')
              = Some (Errorf (''Cannot '' @ ''start'' @ '' Machine:'' @ MachineName (driver s')
                              @ '', with UHost: '' @ UhostID (driver s') @ ''.''))"
    by (simp add: Stop_def invoke_function_def)
  then show "\<exists>verb. \<forall>(env' :: 'w Env) (s' :: 'w Sys) e w1. UhostID (driver s') \<noteq> []
        \<and> stopUHost env' (Region (driver s')) (UhostID (driver s')) (world s') = (Some e, w1)
        \<longrightarrow> fst (Stop env' s')
              = Some (Errorf (''Cannot '' @ verb @ '' Machine:'' @ MachineName (driver s')
                              @ '', with UHost: '' @ UhostID (driver s') @ ''.''))"
    by (rule exI [of _ "''start''"])
next
  show "\<forall>e w1. rebootUHost env (Region (driver s)) (UhostID (driver s)) (world s) = (Some e, w1)
        \<longrightarrow> fst (Restart env s)
              = Some (Errorf (''Unable to restart the UHost instance:'' @ Error e))"
    by (simp add: Restart_def invoke_function_def)
next
  show "\<forall>e w1. terminateUHost env (Region (driver s)) (UhostID (driver s)) (world s) = (Some e, w1)
        \<longrightarrow> fst (Remove env s)
              = Some (Errorf (''Unable to terminate the UHost instance:'' @ Error e))"
    by (simp add: Remove_def invoke_function_def)
qed

theorem lifecycle_error_messages_witness:
  "fst (Start (fakeEnv None None None None (failure ''connection refused'') 3)
         (fakeSys (readyDriver\<lparr>UhostID := ''uhost-1''\<rparr>) [''Running'']))
     = Some (Errorf ''Cannot start Machine:m1, with UHost: uhost-1.'')
   \<and> (\<exists>verb.
         fst (Stop (fakeEnv None None None None (failure ''connection refused'') 3)
               (fakeSys (readyDriver\<lparr>UhostID := ''uhost-1''\<rparr>) [''Running'']))
           = Some (Errorf (''Cannot '' @ verb @ '' Machine:m1, with UHost: uhost-1.''))
         \<and> fst (Stop (fakeEnv None None None None (failure ''invalid signature'') 3)
               (fakeSys (readyDriver\<lparr>MachineName := ''m2'', UhostID := ''uhost-9''\<rparr>) [''Stopped'']))
           = Some (Errorf (''Cannot '' @ verb @ '' Machine:m2, with UHost: uhost-9.'')))
   \<and> fst (Restart (fakeEnv None None None None (failure ''connection refused'') 3)
         (fakeSys (readyDriver\<lparr>UhostID := ''uhost-1''\<rparr>) [''Running'']))
     = Some (Errorf ''Unable to restart the UHost instance:connection refused'')
   \<and> fst (Remove (fakeEnv None None None None (failure ''connection refused'') 3)
         (fakeSys (readyDriver\<lparr>UhostID := ''uhost-1''\<rparr>) [''Running'']))
     = Some (Errorf ''Unable to terminate the UHost instance:connection refused'')"
proof -
  let ?env = "fakeEnv None None None None (failure ''connection refused'') 3"
  let ?env2 = "fakeEnv None None None None (failure ''invalid signature'') 3"
  let ?s = "fakeSys (readyDriver\<lparr>UhostID := ''uhost-1''\<rparr>) [''Running'']"
  let ?s2 = "fakeSys (readyDriver\<lparr>MachineName := ''m2'', UhostID := ''uhost-9''\<rparr>) [''Stopped'']"
  have id: "UhostID (driver ?s) \<noteq> []" "UhostID (driver ?s2) \<noteq> []"
    by (simp_all add: fake_defs)
  have ops: "startUHost ?env r i w = (Some (Errorf ''connection refused''), w)"
    "stopUHost ?env r i w = (Some (Errorf ''connection refused''), w)"
    "rebootUHost ?env r i w = (Some (Errorf ''connection refused''), w)"
    "terminateUHost ?env r i w = (Some (Errorf ''connection refused''), w)"
    "stopUHost ?env2 r i w = (Some (Errorf ''invalid signature''), w)" for r i w
    by (simp_all add: fake_defs)
  have names: "MachineName (driver ?s) = ''m1''" "UhostID (driver ?s) = ''uhost-1''"
    "MachineName (driver ?s2) = ''m2''" "UhostID (driver ?s2) = ''uhost-9''"
    by (simp_all add: fake_defs)
  note all = lifecycle_error_messages [of ?env ?s]
  have start: "fst (Start ?env ?s)
          = Some (Errorf (''Cannot start Machine:'' @ MachineName (driver ?s)
                          @ '', with UHost: '' @ UhostID (driver ?s) @ ''.''))"
    by (rule all [THEN conjunct1, rule_format, OF ops(1)])
  from all [THEN conjunct2, THEN conjunct1]
  obtain verb where
    stop: "\<forall>(env' :: string list Env) s' e w1. UhostID (driver s') \<noteq> []
        \<and> stopUHost env' (Region (driver s')) (UhostID (driver s')) (world s') = (Some e, w1)
        \<longrightarrow> fst (Stop env' s')
              = Some (Errorf (''Cannot '' @ verb @ '' Machine:'' @ MachineName (driver s')
                              @ '', with UHost: '' @ UhostID (driver s') @ ''.''))"
    by (erule exE)
  have restart: "fst (Restart ?env ?s)
          = Some (Errorf (''Unable to restart the UHost instance:''
                          @ Error (Errorf ''connection refused'')))"
    by (rule all [THEN conjunct2, THEN conjunct2, THEN conjunct1, rule_format, OF ops(3)])
  have remove: "fst (Remove ?env ?s)
          = Some (Errorf (''Unable to terminate the UHost instance:''
                          @ Error (Errorf ''connection refused'')))"
    by (rule all [THEN conjunct2, THEN conjunct2, THEN conjunct2, rule_format, OF ops(4)])
  have stops: "fst (Stop ?env ?s)
        = Some (Errorf (''Cannot '' @ verb @ '' Machine:m1, with UHost: uhost-1.''))
      \<and> fst (Stop ?env2 ?s2)
        = Some (Errorf (''Cannot '' @ verb @ '' Machine:m2, with UHost: uhost-9.''))"
    using stop [rule_format, OF conjI, OF id(1) ops(2)] stop [rule_format, OF conjI, OF id(2) ops(5)]
    unfolding names by simp
  from start restart remove show ?thesis
    unfolding names using stops by (simp del: append.simps)
qed

theorem lifecycle_error_messages_counterexample:
  "fst (Start (fakeEnv None None None None (failure ''connection refused'') 3)
         (fakeSys (readyDriver\<lparr>UhostID := ''uhost-1''\<rparr>) [''Running'']))
     = Some (Errorf ''Cannot start Machine:m1, with UHost: uhost-1.'')
   \<and> fst (Start (fakeEnv None None None None (failure ''connection refused'') 3)
         (fakeSys (readyDriver\<lparr>UhostID := ''uhost-1''\<rparr>) [''Running'']))
     \<noteq> Some (Errorf ''cannot start instance uhost-1: connection refused'')
   \<and> fst (Start (fakeEnv None None None None (failure ''invalid signature'') 3)
         (fakeSys (readyDriver\<lparr>UhostID := ''uhost-1''\<rparr>) [''Running'']))
     = Some (Errorf ''Cannot start Machine:m1, with UHost: uhost-1.'')
   \<and> fst (Stop (fakeEnv None None None None (failure ''connection refused'') 3)
         (fakeSys (readyDriver\<lparr>UhostID := ''uhost-1''\<rparr>) [''Running'']))
     = Some (Errorf ''Cannot start Machine:m1, with UHost: uhost-1.'')
   \<and> fst (Stop (fakeEnv None None None None (failure ''connection refused'') 3)
         (fakeSys (readyDriver\<lparr>UhostID := ''uhost-1''\<rparr>) [''Running'']))
     \<noteq> Some (Errorf ''cannot stop instance uhost-1: connection refused'')
   \<and> fst (Stop (fakeEnv None None None None (failure ''invalid signature'') 3)
         (fakeSys (readyDriver\<lparr>UhostID := ''uhost-1''\<rparr>) [''Running'']))
     = Some (Errorf ''Cannot start Machine:m1, with UHost: uhost-1.'')
   \<and> fst (Restart (fakeEnv None None None None (failure ''connection refused'') 3)
         (fakeSys (readyDriver\<lparr>UhostID := ''uhost-1''\<rparr>) [''Running'']))
     = Some (Errorf ''Unable to restart the UHost instance:connection refused'')
   \<and> fst (Restart (fakeEnv None None None None (failure ''connection refused'') 3)
         (fakeSys (readyDriver\<lparr>UhostID := ''uhost-1''\<rparr>) [''Running'']))
     \<noteq> Some (Errorf ''cannot reboot instance uhost-1: connection refused'')
   \<and> fst (Remove (fakeEnv None None None None (failure ''connection refused'') 3)
         (fakeSys (readyDriver\<lparr>UhostID := ''uhost-1''\<rparr>) [''Running'']))
     = Some (Errorf ''Unable to terminate the UHost instance:connection refused'')
   \<and> fst (Remove (fakeEnv None None None None (failure ''connection refused'') 3)
         (fakeSys (readyDriver\<lparr>UhostID := ''uhost-1''\<rparr>) [''Running'']))
     \<noteq> Some (Errorf ''cannot terminate instance uhost-1: connection refused'')"
  by (simp add: fake_defs Start_def Stop_def Restart_def Remove_def invoke_function_def)

subsection \<open>Address and URL\<close>

text \<open>
  Claim C9. \<open>GetIP\<close> returns an error exactly when the stored address is empty, and
  otherwise the stored address with no error. \<open>GetURL\<close> returns an error exactly when
  \<open>GetIP\<close> does, and otherwise \<^verbatim>\<open>tcp://\<close>, the address that \<open>GetIP\<close> returns,
  and \<^verbatim>\<open>:2376\<close>.
\<close>

theorem GetIP_GetURL_spec:
  "(snd (GetIP d) \<noteq> None) = (IPAddress d = [])
   \<and> (IPAddress d \<noteq> [] \<longrightarrow> GetIP d = (IPAddress d, None))
   \<and> (snd (GetURL d) \<noteq> None) = (snd (GetIP d) \<noteq> None)
   \<and> (snd (GetIP d) = None \<longrightarrow> GetURL d = (''tcp://'' @ fst (GetIP d) @ '':2376'', None))"
  by (simp add: GetIP_def GetURL_def)

theorem GetIP_GetURL_spec_witness:
  "GetIP (readyDriver\<lparr>IPAddress := ''10.0.0.7''\<rparr>) = (''10.0.0.7'', None)
   \<and> GetURL (readyDriver\<lparr>IPAddress := ''10.0.0.7''\<rparr>) = (''tcp://10.0.0.7:2376'', None)
   \<and> snd (GetIP readyDriver) \<noteq> None
   \<and> snd (GetURL readyDriver) \<noteq> None"
proof -
  have a: "IPAddress (readyDriver\<lparr>IPAddress := ''10.0.0.7''\<rparr>) = ''10.0.0.7''"
    "IPAddress readyDriver = []"
    by (simp_all add: fake_defs)
  from GetIP_GetURL_spec [of "readyDriver\<lparr>IPAddress := ''10.0.0.7''\<rparr>"]
    GetIP_GetURL_spec [of readyDriver]
  show ?thesis
    unfolding a by simp
qed

subsection \<open>Configuration\<close>

text \<open>
  Claim C10. The flag \<^verbatim>\<open>ucloud-ssh-port\<close> is declared by \<open>GetCreateFlags\<close>, but
  \<open>SetConfigFromFlags\<close> reads no integer flag: changing the integer flags changes neither
  its result nor the driver it leaves, and whenever it returns no error the SSH port of the
  driver is 22.
\<close>

theorem SetConfigFromFlags_SSHPort:
  "''ucloud-ssh-port'' \<in> set (map Name GetCreateFlags)
   \<and> SetConfigFromFlags env (flags\<lparr>flag_Int := g\<rparr>) d = SetConfigFromFlags env flags d
   \<and> (fst (SetConfigFromFlags env flags d) = None
        \<longrightarrow> SSHPort (snd (SetConfigFromFlags env flags d)) = 22)"
proof (intro conjI)
  show "''ucloud-ssh-port'' \<in> set (map Name GetCreateFlags)"
    by (simp add: GetCreateFlags_def)
  show "SetConfigFromFlags env (flags\<lparr>flag_Int := g\<rparr>) d = SetConfigFromFlags env flags d"
    by (simp add: SetConfigFromFlags_def Let_def split: prod.splits option.splits)
  show "fst (SetConfigFromFlags env flags d) = None
        \<longrightarrow> SSHPort (snd (SetConfigFromFlags env flags d)) = 22"
    by (simp add: SetConfigFromFlags_def Let_def split: prod.splits option.splits)
qed

theorem SetConfigFromFlags_SSHPort_witness:
  "flag_Int (fakeFlags ''pub'' ''priv'' ''pw'' 2222) ''ucloud-ssh-port'' = 2222
   \<and> fst (SetConfigFromFlags okEnv (fakeFlags ''pub'' ''priv'' ''pw'' 2222) (NewDriver ''m1'' ''/tmp''))
     = None
   \<and> SSHPort (snd (SetConfigFromFlags okEnv (fakeFlags ''pub'' ''priv'' ''pw'' 2222)
                      (NewDriver ''m1'' ''/tmp''))) = 22"
proof -
  have ok: "fst (SetConfigFromFlags okEnv (fakeFlags ''pub'' ''priv'' ''pw'' 2222)
                  (NewDriver ''m1'' ''/tmp'')) = None"
    by (simp add: SetConfigFromFlags_def okEnv_def fakeEnv_def fakeFlags_def Let_def)
  have fl: "flag_Int (fakeFlags ''pub'' ''priv'' ''pw'' 2222) ''ucloud-ssh-port'' = 2222"
    by (simp add: fakeFlags_def)
  from SetConfigFromFlags_SSHPort [where env = okEnv
      and flags = "fakeFlags ''pub'' ''priv'' ''pw'' 2222" and d = "NewDriver ''m1'' ''/tmp''"] ok fl
  show ?thesis by simp
qed

end
